theory Spec2Isabelle
  imports Complex_Main "HOL-Library.Word"
begin

section \<open>AudioEngine: the data model\<close>

text \<open>
  The embedding follows the class \<open>AudioEngine\<close> (the module with
  \<open>export class AudioEngine\<close>) and the knob handling of \<open>UIController.handleDrag\<close>.

  JavaScript Numbers are modelled as mathematical reals: the rounding of IEEE doubles
  and of the \<open>Float32Array\<close> that stores a curve or a channel is not modelled.
  Every result below is a result about the formulas the code evaluates, in exact
  arithmetic.

  The Web Audio nodes are modelled by the values the engine writes into them: one field
  per \<open>AudioParam\<close> (or payload) that the engine sets after construction.
\<close>

datatype error = TypeError

record audio_ctx =
  sampleRate :: nat

record audio_buffer =
  buffer_rate :: nat
  channelData :: "real list list"

record stage_nodes =
  gate_threshold :: real
  bright_gain :: real
  compressor_ratio :: real
  compressor_threshold :: real
  preGain_gain :: real
  voice_gain :: real
  voice_Q :: real
  distortion_curve :: "real list"
  bass_gain :: real
  mid_gain :: real
  treble_gain :: real
  presence_gain :: real
  cab_buffer :: "audio_buffer option"
  master_gain :: real

text \<open>
  \<open>ctx\<close> is \<open>null\<close> and \<open>nodes\<close> is the empty object until \<open>init\<close> has run; both are
  \<open>None\<close> then. Reading a node of the empty object and then a property of it throws a
  \<open>TypeError\<close>.
\<close>

record engine =
  ctx :: "audio_ctx option"
  nodes :: "stage_nodes option"
  isInitialized :: bool
  currentAmp :: string
  state_bright :: bool
  state_drive :: bool

text \<open>A method call either returns or throws; the engine object keeps the writes made so far.\<close>

datatype outcome = Returns engine | Throws error engine

fun engine_of :: "outcome \<Rightarrow> engine" where
  "engine_of (Returns s) = s"
| "engine_of (Throws e s) = s"

text \<open>Sequencing of two calls: the second runs only when the first returned.\<close>

fun andThen :: "outcome \<Rightarrow> (engine \<Rightarrow> outcome) \<Rightarrow> outcome" where
  "andThen (Returns s) f = f s"
| "andThen (Throws e s) f = Throws e s"

definition new_engine :: engine where
  "new_engine = \<lparr> ctx = None, nodes = None, isInitialized = False,
     currentAmp = ''fender'', state_bright = False, state_drive = False \<rparr>"

section \<open>Curve synthesis: makeDistortionCurve\<close>

definition n_samples :: nat where
  "n_samples = 44100"

text \<open>The input position of table index \<open>i\<close>: \<open>x = i * 2 / n_samples - 1\<close>.\<close>

definition sample_x :: "nat \<Rightarrow> real" where
  "sample_x i = real i * 2 / real n_samples - 1"

text \<open>
  The body of the loop of \<open>makeDistortionCurve\<close>: the transfer function applied to
  the position \<open>x\<close>, and the value stored at index \<open>i\<close>.
\<close>

definition waveshape :: "real \<Rightarrow> real \<Rightarrow> real" where
  "waveshape amount x =
     (if amount < 1 then x * (1 - 0.1 * amount)
      else (let k = amount * 0.5 in tanh (k * x) / tanh k))"

definition curve_point :: "real \<Rightarrow> nat \<Rightarrow> real" where
  "curve_point amount i = (let x = sample_x i in waveshape amount x)"

definition makeDistortionCurve :: "real \<Rightarrow> real list" where
  "makeDistortionCurve amount = map (curve_point amount) [0..<n_samples]"

section \<open>Distortion amount: updateDistortion\<close>

text \<open>The base amount of \<open>updateDistortion\<close>: 0 unless the model is one of the three.\<close>

definition baseAmount :: "string \<Rightarrow> bool \<Rightarrow> real" where
  "baseAmount amp drive =
     (if amp = ''fender'' then (if drive then 8 else 0.5)
      else if amp = ''vox'' then (if drive then 15 else 2)
      else if amp = ''marshall'' then (if drive then 25 else 3)
      else 0)"

definition finalAmount :: "string \<Rightarrow> bool \<Rightarrow> real \<Rightarrow> real" where
  "finalAmount amp drive currentGain =
     (let gainFactor = max 0 ((currentGain - 2) / 8) in
      baseAmount amp drive * (0.2 + gainFactor * 0.8))"

definition updateDistortion :: "engine \<Rightarrow> outcome" where
  "updateDistortion s =
     (case nodes s of
        None \<Rightarrow> Throws TypeError s
      | Some n \<Rightarrow>
          (let currentGain = preGain_gain n in
           Returns (s\<lparr> nodes := Some (n\<lparr> distortion_curve :=
             makeDistortionCurve (finalAmount (currentAmp s) (state_drive s) currentGain) \<rparr>) \<rparr>)))"

section \<open>Parameters and switches\<close>

text \<open>A write to one node: throws when the nodes do not exist.\<close>

definition write_node :: "(stage_nodes \<Rightarrow> stage_nodes) \<Rightarrow> engine \<Rightarrow> outcome" where
  "write_node f s =
     (case nodes s of
        None \<Rightarrow> Throws TypeError s
      | Some n \<Rightarrow> Returns (s\<lparr> nodes := Some (f n) \<rparr>))"

definition setParam :: "string \<Rightarrow> real \<Rightarrow> engine \<Rightarrow> outcome" where
  "setParam param v s =
     (if \<not> isInitialized s then Returns s
      else if param = ''gate'' then write_node (\<lambda>n. n\<lparr> gate_threshold := v \<rparr>) s
      else if param = ''compressor'' then
        (let ratio = 1 + v * 11; thresh = - 30 - v * 20 in
         write_node (\<lambda>n. n\<lparr> compressor_ratio := ratio, compressor_threshold := thresh \<rparr>) s)
      else if param = ''preGain'' then
        (let multiplier = (if state_drive s then 2.0 else 1.0) in
         andThen (write_node (\<lambda>n. n\<lparr> preGain_gain := v * multiplier \<rparr>) s) updateDistortion)
      else if param = ''voice'' then
        write_node (\<lambda>n. n\<lparr> voice_gain := v * 3, voice_Q := 1.5 + \<bar>v\<bar> * 0.2 \<rparr>) s
      else if param = ''bass'' then write_node (\<lambda>n. n\<lparr> bass_gain := v \<rparr>) s
      else if param = ''mid'' then write_node (\<lambda>n. n\<lparr> mid_gain := v \<rparr>) s
      else if param = ''treble'' then write_node (\<lambda>n. n\<lparr> treble_gain := v \<rparr>) s
      else if param = ''presence'' then write_node (\<lambda>n. n\<lparr> presence_gain := v \<rparr>) s
      else if param = ''master'' then write_node (\<lambda>n. n\<lparr> master_gain := v * 0.2 \<rparr>) s
      else Returns s)"

text \<open>
  \<open>toggleSwitch\<close>: the drive branch stores the flag, reads the pre-gain into the unused
  constant \<open>currentBase\<close> (a read that throws without nodes, and writes nothing) and
  recomputes the curve.
\<close>

definition toggleSwitch :: "string \<Rightarrow> bool \<Rightarrow> engine \<Rightarrow> outcome" where
  "toggleSwitch switchName isActive s =
     (if \<not> isInitialized s then Returns s
      else if switchName = ''bright'' then
        write_node (\<lambda>n. n\<lparr> bright_gain := (if isActive then 6 else 0) \<rparr>) s
      else if switchName = ''drive'' then
        (let s1 = s\<lparr> state_drive := isActive \<rparr> in
         case nodes s1 of
           None \<Rightarrow> Throws TypeError s1
         | Some n \<Rightarrow>
             (let currentBase = preGain_gain n / (if isActive then 1.0 / 3.0 else 3.0) in
              updateDistortion s1))
      else Returns s)"

section \<open>Cabinet: setInternalCab and loadIR\<close>

text \<open>
  The random source is a parameter: \<open>rnd i\<close> is the value \<open>Math.random()\<close> returns in
  iteration \<open>i\<close> of the loop, a number in \<open>[0, 1)\<close>. \<open>len\<close> is the constant \<open>length\<close> of
  the code, \<open>rate * duration\<close>, and \<open>left\<close> holds the samples written so far.
\<close>

definition decayed_noise :: "(nat \<Rightarrow> real) \<Rightarrow> real \<Rightarrow> nat \<Rightarrow> real" where
  "decayed_noise rnd len i = (rnd i * 2 - 1) * (1 - real i / len) ^ 4"

definition cab_sample :: "string \<Rightarrow> (nat \<Rightarrow> real) \<Rightarrow> real \<Rightarrow> real list \<Rightarrow> nat \<Rightarrow> real" where
  "cab_sample model rnd len left i =
     (let val = decayed_noise rnd len i in
      if model = ''fender'' then (if i mod 2 = 0 then val * 0.9 else val)
      else if model = ''marshall'' then
        (if i > 2 then (val + left ! (i - 1) + left ! (i - 2)) / 3 else val)
      else if model = ''vox'' then val * 0.8
      else val)"

text \<open>
  The loop fills index \<open>0\<close>, \<open>1\<close>, ... of both channels. The buffer holds
  \<open>rate div 2\<close> frames (\<open>createBuffer\<close> truncates a fractional length); for an odd rate
  the loop runs once more and that write, past the end of the typed array, is dropped.
  (An audio context has no rate below 2, for which \<open>createBuffer\<close> would refuse the
  length 0.)
\<close>

definition fill_channel :: "string \<Rightarrow> (nat \<Rightarrow> real) \<Rightarrow> real \<Rightarrow> nat \<Rightarrow> real list" where
  "fill_channel model rnd len n =
     foldl (\<lambda>left i. left @ [cab_sample model rnd len left i]) [] [0..<n]"

definition cab_channel :: "string \<Rightarrow> (nat \<Rightarrow> real) \<Rightarrow> nat \<Rightarrow> real list" where
  "cab_channel model rnd rate = fill_channel model rnd (real rate * 0.5) (rate div 2)"

definition synth_impulse :: "string \<Rightarrow> (nat \<Rightarrow> real) \<Rightarrow> nat \<Rightarrow> audio_buffer" where
  "synth_impulse model rnd rate =
     (let chan = cab_channel model rnd rate in
      \<lparr> buffer_rate = rate, channelData = [chan, chan] \<rparr>)"

definition setInternalCab :: "(nat \<Rightarrow> real) \<Rightarrow> string \<Rightarrow> engine \<Rightarrow> outcome" where
  "setInternalCab rnd model s =
     (case ctx s of
        None \<Rightarrow> Throws TypeError s
      | Some c \<Rightarrow>
          write_node (\<lambda>n. n\<lparr> cab_buffer := Some (synth_impulse model rnd (sampleRate c)) \<rparr>) s)"

definition setAmpModel :: "(nat \<Rightarrow> real) \<Rightarrow> string \<Rightarrow> engine \<Rightarrow> outcome" where
  "setAmpModel rnd model s =
     andThen (updateDistortion (s\<lparr> currentAmp := model \<rparr>)) (setInternalCab rnd model)"

text \<open>
  \<open>loadIR\<close> returns \<open>undefined\<close> without a context, \<open>true\<close> after a successful decode and
  \<open>false\<close> when anything in the \<open>try\<close> block throws. The decoder is the platform's
  \<open>decodeAudioData\<close>, a parameter here: \<open>None\<close> stands for a rejected promise.
\<close>

datatype load_result = Undefined | Bool bool

definition loadIR ::
    "(8 word list \<Rightarrow> audio_buffer option) \<Rightarrow> 8 word list \<Rightarrow> engine \<Rightarrow> engine \<times> load_result" where
  "loadIR decodeAudioData arrayBuffer s =
     (if ctx s = None then (s, Undefined)
      else case decodeAudioData arrayBuffer of
        None \<Rightarrow> (s, Bool False)
      | Some buffer \<Rightarrow>
          (case nodes s of
             None \<Rightarrow> (s, Bool False)
           | Some n \<Rightarrow> (s\<lparr> nodes := Some (n\<lparr> cab_buffer := Some buffer \<rparr>) \<rparr>, Bool True)))"

section \<open>Initialisation\<close>

text \<open>
  \<open>init\<close> creates the context at 48000 Hz and the nodes with their start values (a
  filter's gain starts at 0), loads the default cabinet, sets the flag and selects the
  default model. The two cabinet syntheses draw from \<open>rnd1\<close> and \<open>rnd2\<close>.
\<close>

definition init_nodes :: stage_nodes where
  "init_nodes = \<lparr> gate_threshold = - 60, bright_gain = 0, compressor_ratio = 1,
     compressor_threshold = - 30, preGain_gain = 3.0, voice_gain = 0, voice_Q = 1.0,
     distortion_curve = makeDistortionCurve 0, bass_gain = 0, mid_gain = 0, treble_gain = 0,
     presence_gain = 0, cab_buffer = None, master_gain = 1.0 \<rparr>"

definition init :: "(nat \<Rightarrow> real) \<Rightarrow> (nat \<Rightarrow> real) \<Rightarrow> engine \<Rightarrow> outcome" where
  "init rnd1 rnd2 s =
     (if isInitialized s then Returns s
      else
        andThen
          (setInternalCab rnd1 ''fender''
             (s\<lparr> ctx := Some \<lparr> sampleRate = 48000 \<rparr>, nodes := Some init_nodes \<rparr>))
          (\<lambda>s2. setAmpModel rnd2 ''fender'' (s2\<lparr> isInitialized := True \<rparr>)))"

section \<open>The knob of the user interface: handleDrag\<close>

text \<open>
  The value \<open>handleDrag\<close> passes to \<open>setParam\<close>: the knob's value at the start of the
  drag plus the movement, clamped to the knob's \<open>data-min\<close> and \<open>data-max\<close>.
\<close>

definition handleDrag_value :: "real \<Rightarrow> real \<Rightarrow> real \<Rightarrow> real \<Rightarrow> real" where
  "handleDrag_value startValue deltaY mn mx =
     (let range = mx - mn; step = range / 200;
          newValue = startValue + deltaY * step
      in min (max newValue mn) mx)"

text \<open>
  \<open>handleDrag\<close> does nothing unless a knob is being dragged (\<open>dragging\<close>); otherwise it
  calls \<open>setParam\<close> with the knob's parameter name and the clamped value.
\<close>

definition handleDrag ::
    "bool \<Rightarrow> string \<Rightarrow> real \<Rightarrow> real \<Rightarrow> real \<Rightarrow> real \<Rightarrow> engine \<Rightarrow> outcome" where
  "handleDrag dragging param startValue deltaY mn mx s =
     (if \<not> dragging then Returns s
      else setParam param (handleDrag_value startValue deltaY mn mx) s)"

section \<open>Observations and reference states\<close>

text \<open>What a caller can read back from the nodes.\<close>

definition node_value :: "(stage_nodes \<Rightarrow> 'a) \<Rightarrow> engine \<Rightarrow> 'a option" where
  "node_value field s = map_option field (nodes s)"

text \<open>
  The amount \<open>updateDistortion\<close> would compute in a state: the derived distortion amount
  of the current model, drive flag and pre-gain.
\<close>

definition currentAmount :: "engine \<Rightarrow> real option" where
  "currentAmount s =
     map_option (\<lambda>n. finalAmount (currentAmp s) (state_drive s) (preGain_gain n)) (nodes s)"

text \<open>A fixed random source and the engine after \<open>init\<close> with it.\<close>

definition alternating_source :: "nat \<Rightarrow> real" where
  "alternating_source i = (if even i then 3 / 4 else 1 / 4)"

definition ready_engine :: engine where
  "ready_engine = engine_of (init alternating_source alternating_source new_engine)"

text \<open>The engine after the drive switch is enabled and the gain knob is set to 10.\<close>

definition driven_engine :: engine where
  "driven_engine =
     engine_of (andThen (toggleSwitch ''drive'' True ready_engine) (setParam ''preGain'' 10))"

text \<open>A decoder that rejects every input.\<close>

definition reject_all :: "8 word list \<Rightarrow> audio_buffer option" where
  "reject_all arrayBuffer = None"

section \<open>The amount as the specification words it\<close>

text \<open>
  The specification's derivation of the amount, for comparison with \<open>finalAmount\<close>:
  the gain factor \<open>max(0, (g - lowThreshold) / span)\<close> clamped to \<open>[0, 1]\<close>, and
  \<open>baseAmount * (floor + gainFactor * (1 - floor))\<close>, with the threshold 2, the span 8
  and the floor 0.2 of its scenario.
\<close>

definition spec_finalAmount :: "string \<Rightarrow> bool \<Rightarrow> real \<Rightarrow> real" where
  "spec_finalAmount amp drive g =
     (let gainFactor = min 1 (max 0 ((g - 2) / 8)) in
      baseAmount amp drive * (0.2 + gainFactor * (1 - 0.2)))"

section \<open>Basic facts\<close>

lemma ready_engine_eq:
  "ready_engine = \<lparr> ctx = Some \<lparr> sampleRate = 48000 \<rparr>,
     nodes = Some (init_nodes\<lparr> distortion_curve := makeDistortionCurve (finalAmount ''fender'' False 3),
       cab_buffer := Some (synth_impulse ''fender'' alternating_source 48000) \<rparr>),
     isInitialized = True, currentAmp = ''fender'', state_bright = False, state_drive = False \<rparr>"
  by (simp add: ready_engine_def init_def new_engine_def setInternalCab_def write_node_def
      setAmpModel_def updateDistortion_def init_nodes_def)

lemma ready_engine_initialized: "isInitialized ready_engine"
  by (simp add: ready_engine_eq)

lemma ready_engine_nodes:
  "nodes ready_engine = Some (init_nodes\<lparr> distortion_curve := makeDistortionCurve (finalAmount ''fender'' False 3),
       cab_buffer := Some (synth_impulse ''fender'' alternating_source 48000) \<rparr>)"
  by (simp add: ready_engine_eq)

lemma baseAmount_nonneg: "0 \<le> baseAmount amp drive"
  by (simp add: baseAmount_def)

lemma finalAmount_mono:
  "g1 \<le> g2 \<Longrightarrow> finalAmount amp drive g1 \<le> finalAmount amp drive g2"
  unfolding finalAmount_def Let_def
  by (intro mult_left_mono baseAmount_nonneg add_left_mono mult_right_mono max.mono divide_right_mono)
     simp_all

lemma setParam_preGain:
  "isInitialized s \<Longrightarrow> nodes s = Some n \<Longrightarrow>
     setParam ''preGain'' v s =
       Returns (s\<lparr> nodes := Some (n\<lparr> preGain_gain := v * (if state_drive s then 2 else 1),
         distortion_curve := makeDistortionCurve
           (finalAmount (currentAmp s) (state_drive s) (v * (if state_drive s then 2 else 1))) \<rparr>) \<rparr>)"
  by (simp add: setParam_def write_node_def updateDistortion_def)

lemma driven_engine_eq:
  "driven_engine = ready_engine\<lparr> state_drive := True,
     nodes := Some (init_nodes\<lparr> preGain_gain := 20,
       distortion_curve := makeDistortionCurve (finalAmount ''fender'' True 20),
       cab_buffer := Some (synth_impulse ''fender'' alternating_source 48000) \<rparr>) \<rparr>"
  by (simp add: driven_engine_def ready_engine_eq toggleSwitch_def updateDistortion_def
      setParam_def write_node_def init_nodes_def)

subsection \<open>The curve table\<close>

lemma length_makeDistortionCurve: "length (makeDistortionCurve amount) = n_samples"
  by (simp add: makeDistortionCurve_def)

lemma nth_makeDistortionCurve:
  "i < n_samples \<Longrightarrow> makeDistortionCurve amount ! i = waveshape amount (sample_x i)"
  by (simp add: makeDistortionCurve_def curve_point_def)

lemma sample_x_mono: "i \<le> j \<Longrightarrow> sample_x i \<le> sample_x j"
  by (simp add: sample_x_def n_samples_def divide_right_mono)



lemma waveshape_mono:
  assumes "0 \<le> amount" and "x \<le> y"
  shows "waveshape amount x \<le> waveshape amount y"
proof (cases "amount < 1")
  case True
  then have "0 \<le> 1 - 0.1 * amount" by simp
  with assms(2) have "x * (1 - 0.1 * amount) \<le> y * (1 - 0.1 * amount)"
    by (rule mult_right_mono)
  with True show ?thesis by (simp add: waveshape_def)
next
  case False
  then have k: "0 < amount * 0.5" by simp
  with assms(2) have "amount * 0.5 * x \<le> amount * 0.5 * y" by simp
  then have "tanh (amount * 0.5 * x) \<le> tanh (amount * 0.5 * y)" by simp
  moreover from k have "0 \<le> tanh (amount * 0.5)" by simp
  ultimately have "tanh (amount * 0.5 * x) / tanh (amount * 0.5)
      \<le> tanh (amount * 0.5 * y) / tanh (amount * 0.5)"
    by (rule divide_right_mono)
  with False show ?thesis by (simp add: waveshape_def)
qed




subsection \<open>The synthetic impulse response\<close>

lemma fill_channel_Suc:
  "fill_channel model rnd len (Suc n) =
     fill_channel model rnd len n @ [cab_sample model rnd len (fill_channel model rnd len n) n]"
  by (simp add: fill_channel_def)

lemma length_fill_channel: "length (fill_channel model rnd len n) = n"
  by (induction n) (simp_all add: fill_channel_Suc, simp add: fill_channel_def)

lemma fill_channel_prefix:
  "i < k \<Longrightarrow> k \<le> n \<Longrightarrow> fill_channel model rnd len n ! i = fill_channel model rnd len k ! i"
proof (induction n)
  case 0
  then show ?case by simp
next
  case (Suc n)
  show ?case
  proof (cases "k = Suc n")
    case True
    then show ?thesis by simp
  next
    case False
    with Suc.prems have "k \<le> n" by simp
    with Suc.prems(1) have "i < n" by simp
    then have "fill_channel model rnd len (Suc n) ! i = fill_channel model rnd len n ! i"
      by (simp add: fill_channel_Suc nth_append length_fill_channel)
    with Suc.IH [OF Suc.prems(1) \<open>k \<le> n\<close>] show ?thesis by simp
  qed
qed

lemma cab_sample_cong:
  "(2 < i \<Longrightarrow> left ! (i - 1) = left' ! (i - 1) \<and> left ! (i - 2) = left' ! (i - 2)) \<Longrightarrow>
     cab_sample model rnd len left i = cab_sample model rnd len left' i"
  by (simp add: cab_sample_def Let_def)

lemma nth_fill_channel:
  assumes "i < n"
  shows "fill_channel model rnd len n ! i = cab_sample model rnd len (fill_channel model rnd len n) i"
proof -
  have "fill_channel model rnd len n ! i = fill_channel model rnd len (Suc i) ! i"
    using assms by (intro fill_channel_prefix) simp_all
  also have "\<dots> = cab_sample model rnd len (fill_channel model rnd len i) i"
    by (simp add: fill_channel_Suc nth_append length_fill_channel)
  also have "\<dots> = cab_sample model rnd len (fill_channel model rnd len n) i"
  proof (rule cab_sample_cong)
    assume "2 < i"
    with assms show "fill_channel model rnd len i ! (i - 1) = fill_channel model rnd len n ! (i - 1)
       \<and> fill_channel model rnd len i ! (i - 2) = fill_channel model rnd len n ! (i - 2)"
      by (simp add: fill_channel_prefix [of _ i n])
  qed
  finally show ?thesis .
qed

lemma decayed_noise_bounds:
  assumes "0 \<le> rnd i" and "rnd i < 1" and "real i < len"
  shows "\<bar>decayed_noise rnd len i\<bar> \<le> 1"
proof -
  from assms(3) have len: "0 < len" by (smt (verit) of_nat_0_le_iff)
  have a: "\<bar>rnd i * 2 - 1\<bar> \<le> 1" using assms(1,2) by (simp add: abs_le_iff)
  from assms(3) len have "0 \<le> 1 - real i / len" and "1 - real i / len \<le> 1" by simp_all
  then have "0 \<le> (1 - real i / len) ^ 4" and "(1 - real i / len) ^ 4 \<le> 1"
    by (simp_all add: power_le_one)
  then have "\<bar>(1 - real i / len) ^ 4\<bar> \<le> 1" by simp
  with a have "\<bar>rnd i * 2 - 1\<bar> * \<bar>(1 - real i / len) ^ 4\<bar> \<le> 1 * 1"
    by (intro mult_mono) simp_all
  then show ?thesis by (simp add: decayed_noise_def abs_mult)
qed

section \<open>Calls before initialisation\<close>

text \<open>
  Claim C10. Before \<open>init\<close> has set \<open>isInitialized\<close>, \<open>setParam\<close> and \<open>toggleSwitch\<close> return
  normally, for every name and value, and the engine (its nodes, its switch state, its
  curve) is the one they were called on.
\<close>

theorem uninitialized_noop:
  "\<not> isInitialized s \<Longrightarrow>
     setParam param v s = Returns s \<and> toggleSwitch switchName isActive s = Returns s"
  by (simp add: setParam_def toggleSwitch_def)

theorem uninitialized_noop_witness:
  "\<not> isInitialized new_engine \<and> setParam ''master'' 5 new_engine = Returns new_engine
     \<and> toggleSwitch ''drive'' True new_engine = Returns new_engine"
proof -
  have h: "\<not> isInitialized new_engine" by (simp add: new_engine_def)
  from uninitialized_noop [OF h, of "''master''" 5 "''drive''" True] h show ?thesis by simp
qed

section \<open>The master parameter\<close>

text \<open>
  Claim C3 says that a master value outside \<open>[0, 10]\<close> is clamped before it is applied.
  \<open>setParam\<close> has no clamp: the value 12 gives the gain \<open>12 * 0.2\<close>, not the gain
  \<open>10 * 0.2\<close> of the value 10.
\<close>

theorem master_counterexample:
  "node_value master_gain (engine_of (setParam ''master'' 12 ready_engine)) = Some (12 * 0.2)
   \<and> node_value master_gain (engine_of (setParam ''master'' 10 ready_engine)) = Some (10 * 0.2)
   \<and> node_value master_gain (engine_of (setParam ''master'' 12 ready_engine))
       \<noteq> node_value master_gain (engine_of (setParam ''master'' 10 ready_engine))"
  by (simp add: ready_engine_eq setParam_def write_node_def node_value_def)

text \<open>
  Claim C3 as amended. On an initialised engine \<open>setParam ''master'' v\<close> applies
  \<open>v * 0.2\<close> for every \<open>v\<close>. The clamp is the caller's: \<open>handleDrag\<close> passes the knob
  value clamped to the knob's range, so a drag of a knob with the range \<open>[0, 10]\<close>
  applies a gain between 0 and \<open>10 * 0.2\<close>.
\<close>

theorem master_scaled:
  "isInitialized s \<Longrightarrow> nodes s = Some n \<Longrightarrow>
     setParam ''master'' v s = Returns (s\<lparr> nodes := Some (n\<lparr> master_gain := v * 0.2 \<rparr>) \<rparr>)
     \<and> handleDrag True ''master'' startValue deltaY 0 10 s =
         Returns (s\<lparr> nodes := Some (n\<lparr> master_gain :=
           min (max (startValue + deltaY * (10 / 200)) 0) 10 * 0.2 \<rparr>) \<rparr>)
     \<and> 0 \<le> handleDrag_value startValue deltaY 0 10
     \<and> handleDrag_value startValue deltaY 0 10 \<le> 10"
  by (simp add: setParam_def write_node_def handleDrag_def handleDrag_value_def)

theorem master_scaled_witness:
  "isInitialized ready_engine \<and> nodes ready_engine \<noteq> None
   \<and> node_value master_gain (engine_of (setParam ''master'' 7 ready_engine)) = Some (7 * 0.2)
   \<and> node_value master_gain (engine_of (handleDrag True ''master'' 9 100 0 10 ready_engine)) = Some (10 * 0.2)"
proof -
  have i: "isInitialized ready_engine" by (simp add: ready_engine_eq)
  obtain n where n: "nodes ready_engine = Some n" by (simp add: ready_engine_eq)
  from master_scaled [OF i n, of 7 9 100] i n show ?thesis by (simp add: node_value_def)
qed

section \<open>The drive switch\<close>

text \<open>
  Claim C5 says that enabling the drive switch multiplies the gain of the pre-gain stage
  by a boost factor. \<open>toggleSwitch\<close> leaves that gain as it is: 3 before and 3 after on
  the engine that \<open>init\<close> returns, not \<open>3 * 2\<close>.
\<close>

theorem drive_counterexample:
  "node_value preGain_gain ready_engine = Some 3
   \<and> node_value preGain_gain (engine_of (toggleSwitch ''drive'' True ready_engine)) = Some 3
   \<and> node_value preGain_gain (engine_of (toggleSwitch ''drive'' True ready_engine)) \<noteq> Some (3 * 2.0)"
  by (simp add: ready_engine_eq toggleSwitch_def updateDistortion_def node_value_def init_nodes_def)

text \<open>
  Claim C5 as amended. Enabling the drive switch sets the drive flag and recomputes the
  curve from the drive-on base amount and the unchanged gain of the pre-gain stage; the
  factor 2 is applied by the next \<open>setParam ''preGain'' v\<close>, which stores \<open>v * 2\<close> and
  recomputes the curve again.
\<close>

theorem drive_sets_flag_and_curve:
  "isInitialized s \<Longrightarrow> nodes s = Some n \<Longrightarrow>
     toggleSwitch ''drive'' True s =
       Returns (s\<lparr> state_drive := True, nodes := Some (n\<lparr> distortion_curve :=
         makeDistortionCurve (finalAmount (currentAmp s) True (preGain_gain n)) \<rparr>) \<rparr>)
     \<and> andThen (toggleSwitch ''drive'' True s) (setParam ''preGain'' v) =
       Returns (s\<lparr> state_drive := True, nodes := Some (n\<lparr> preGain_gain := v * 2.0, distortion_curve :=
         makeDistortionCurve (finalAmount (currentAmp s) True (v * 2.0)) \<rparr>) \<rparr>)"
  by (simp add: toggleSwitch_def updateDistortion_def setParam_def write_node_def)

theorem drive_sets_flag_and_curve_witness:
  "isInitialized ready_engine \<and> nodes ready_engine \<noteq> None
   \<and> state_drive (engine_of (toggleSwitch ''drive'' True ready_engine))
   \<and> node_value preGain_gain (engine_of (toggleSwitch ''drive'' True ready_engine)) = Some 3
   \<and> node_value distortion_curve (engine_of (toggleSwitch ''drive'' True ready_engine))
        = Some (makeDistortionCurve (finalAmount ''fender'' True 3))
   \<and> node_value preGain_gain (engine_of (andThen (toggleSwitch ''drive'' True ready_engine) (setParam ''preGain'' 3)))
        = Some 6"
proof -
  have i: "isInitialized ready_engine" by (simp add: ready_engine_eq)
  have n: "nodes ready_engine = Some (init_nodes\<lparr> distortion_curve := makeDistortionCurve (finalAmount ''fender'' False 3),
       cab_buffer := Some (synth_impulse ''fender'' alternating_source 48000) \<rparr>)" by (simp add: ready_engine_eq)
  have c: "currentAmp ready_engine = ''fender''" by (simp add: ready_engine_eq)
  note t = drive_sets_flag_and_curve [OF i n, of 3]
  have "state_drive (engine_of (toggleSwitch ''drive'' True ready_engine))"
    unfolding conjunct1 [OF t] by simp
  moreover have "node_value preGain_gain (engine_of (toggleSwitch ''drive'' True ready_engine)) = Some 3"
    unfolding conjunct1 [OF t] by (simp add: node_value_def init_nodes_def)
  moreover have "node_value distortion_curve (engine_of (toggleSwitch ''drive'' True ready_engine))
        = Some (makeDistortionCurve (finalAmount ''fender'' True 3))"
    unfolding conjunct1 [OF t] by (simp add: node_value_def c init_nodes_def)
  moreover have "node_value preGain_gain
      (engine_of (andThen (toggleSwitch ''drive'' True ready_engine) (setParam ''preGain'' 3))) = Some 6"
    unfolding conjunct2 [OF t] by (simp add: node_value_def)
  ultimately show ?thesis using i n by simp
qed

text \<open>
  Claim C7. From a state with the drive flag off, switching drive on and then off gives
  back the derived amount of the state before; on an initialised engine the curve after
  the round trip is the curve of that amount, and when the curve was that curve before,
  the round trip returns the engine unchanged.
\<close>

theorem drive_round_trip:
  assumes "\<not> state_drive s"
  shows "currentAmount (engine_of (andThen (toggleSwitch ''drive'' True s) (toggleSwitch ''drive'' False)))
           = currentAmount s
     \<and> (isInitialized s \<and> nodes s \<noteq> None \<longrightarrow>
          node_value distortion_curve
            (engine_of (andThen (toggleSwitch ''drive'' True s) (toggleSwitch ''drive'' False)))
          = map_option makeDistortionCurve (currentAmount s))
     \<and> (nodes s \<noteq> None \<and>
          node_value distortion_curve s = map_option makeDistortionCurve (currentAmount s) \<longrightarrow>
          andThen (toggleSwitch ''drive'' True s) (toggleSwitch ''drive'' False) = Returns s)"
proof (cases "isInitialized s")
  case False
  then show ?thesis by (simp add: toggleSwitch_def)
next
  case True
  show ?thesis
  proof (cases "nodes s")
    case None
    with True assms show ?thesis
      by (simp add: toggleSwitch_def currentAmount_def node_value_def)
  next
    case (Some n)
    with True assms show ?thesis
      by (auto simp add: toggleSwitch_def updateDistortion_def currentAmount_def node_value_def
          intro!: engine.equality stage_nodes.equality)
  qed
qed


theorem drive_round_trip_witness:
  "\<not> state_drive ready_engine \<and> isInitialized ready_engine \<and> nodes ready_engine \<noteq> None
   \<and> currentAmount ready_engine = Some (finalAmount ''fender'' False 3)
   \<and> node_value distortion_curve ready_engine = map_option makeDistortionCurve (currentAmount ready_engine)
   \<and> currentAmount (engine_of (andThen (toggleSwitch ''drive'' True ready_engine) (toggleSwitch ''drive'' False)))
        = currentAmount ready_engine
   \<and> andThen (toggleSwitch ''drive'' True ready_engine) (toggleSwitch ''drive'' False) = Returns ready_engine"
proof -
  have h: "\<not> state_drive ready_engine" by (simp add: ready_engine_eq)
  have i: "isInitialized ready_engine \<and> nodes ready_engine \<noteq> None" by (simp add: ready_engine_eq)
  have a: "currentAmount ready_engine = Some (finalAmount ''fender'' False 3)"
    by (simp add: ready_engine_eq currentAmount_def init_nodes_def)
  have c: "node_value distortion_curve ready_engine = map_option makeDistortionCurve (currentAmount ready_engine)"
    by (simp add: ready_engine_eq currentAmount_def node_value_def init_nodes_def)
  from drive_round_trip [OF h] h i a c show ?thesis by simp
qed

section \<open>The pre-gain parameter\<close>

text \<open>
  Claim C6. On an initialised engine every \<open>setParam ''preGain'' g\<close> stores the curve of
  the amount derived from the new gain, and for a fixed model and drive flag that amount
  does not decrease when \<open>g\<close> grows.
\<close>

theorem preGain_recomputes_monotone:
  assumes "isInitialized s" and "nodes s = Some n" and "g1 \<le> g2"
  shows "\<exists>a1 a2.
     currentAmount (engine_of (setParam ''preGain'' g1 s)) = Some a1
   \<and> currentAmount (engine_of (setParam ''preGain'' g2 s)) = Some a2
   \<and> node_value distortion_curve (engine_of (setParam ''preGain'' g1 s)) = Some (makeDistortionCurve a1)
   \<and> node_value distortion_curve (engine_of (setParam ''preGain'' g2 s)) = Some (makeDistortionCurve a2)
   \<and> a1 \<le> a2"
proof -
  let ?m = "if state_drive s then 2 else 1 :: real"
  have "g1 * ?m \<le> g2 * ?m" using assms(3) by simp
  then have "finalAmount (currentAmp s) (state_drive s) (g1 * ?m)
      \<le> finalAmount (currentAmp s) (state_drive s) (g2 * ?m)"
    by (rule finalAmount_mono)
  then show ?thesis
    using assms(1,2) by (simp add: setParam_preGain currentAmount_def node_value_def)
qed

theorem preGain_recomputes_monotone_witness:
  "isInitialized ready_engine \<and> nodes ready_engine \<noteq> None \<and> (4::real) \<le> 6
   \<and> currentAmount (engine_of (setParam ''preGain'' 4 ready_engine)) = Some (finalAmount ''fender'' False 4)
   \<and> currentAmount (engine_of (setParam ''preGain'' 6 ready_engine)) = Some (finalAmount ''fender'' False 6)
   \<and> node_value distortion_curve (engine_of (setParam ''preGain'' 4 ready_engine))
        = Some (makeDistortionCurve (finalAmount ''fender'' False 4))
   \<and> finalAmount ''fender'' False 4 \<le> finalAmount ''fender'' False 6"
proof -
  have i: "isInitialized ready_engine" by (simp add: ready_engine_eq)
  obtain n where n: "nodes ready_engine = Some n" by (simp add: ready_engine_eq)
  have g: "(4::real) \<le> 6" by simp
  have a4: "currentAmount (engine_of (setParam ''preGain'' 4 ready_engine)) = Some (finalAmount ''fender'' False 4)"
    by (simp add: ready_engine_eq setParam_def write_node_def updateDistortion_def currentAmount_def)
  have a6: "currentAmount (engine_of (setParam ''preGain'' 6 ready_engine)) = Some (finalAmount ''fender'' False 6)"
    by (simp add: ready_engine_eq setParam_def write_node_def updateDistortion_def currentAmount_def)
  from preGain_recomputes_monotone [OF i n g] a4 a6 i n show ?thesis by auto
qed

section \<open>The distortion amount\<close>

text \<open>
  Claim C1 says that the gain factor is clamped to \<open>[0, 1]\<close>. The code has the lower
  bound only. With drive on and the gain knob at 10 the stage gain is 20, the gain
  factor is 2.25 and the amount is 16, where the clamped formula gives 8.
\<close>

theorem gain_factor_counterexample:
  "node_value preGain_gain driven_engine = Some 20
   \<and> currentAmount driven_engine = Some 16
   \<and> node_value distortion_curve driven_engine = Some (makeDistortionCurve 16)
   \<and> spec_finalAmount ''fender'' True 20 = 8
   \<and> finalAmount ''fender'' True 20 \<noteq> spec_finalAmount ''fender'' True 20"
  by (simp add: driven_engine_eq ready_engine_eq node_value_def currentAmount_def init_nodes_def
      finalAmount_def spec_finalAmount_def baseAmount_def)

text \<open>
  Claim C1 as amended. The amount \<open>updateDistortion\<close> feeds to curve synthesis is
  \<open>baseAmount * (0.2 + gainFactor * 0.8)\<close> with \<open>gainFactor = max(0, (g - 2) / 8)\<close>, which
  is at least 0 and has no upper clamp; it is at most 1, and the amount is the
  specification's, when \<open>g\<close> is at most 10. For the model \<open>fender\<close> (the clean model) with
  drive off and the pre-gain 3 the amount is 0.15.
\<close>

theorem updateDistortion_amount:
  "nodes s = Some n \<Longrightarrow>
     updateDistortion s = Returns (s\<lparr> nodes := Some (n\<lparr> distortion_curve := makeDistortionCurve
        (baseAmount (currentAmp s) (state_drive s)
           * (0.2 + max 0 ((preGain_gain n - 2) / 8) * 0.8)) \<rparr>) \<rparr>)
   \<and> 0 \<le> max 0 ((preGain_gain n - 2) / 8)
   \<and> (preGain_gain n \<le> 10 \<longrightarrow>
         max 0 ((preGain_gain n - 2) / 8) \<le> 1
       \<and> finalAmount (currentAmp s) (state_drive s) (preGain_gain n)
           = spec_finalAmount (currentAmp s) (state_drive s) (preGain_gain n))
   \<and> finalAmount ''fender'' False 3 = 0.15"
  by (simp add: updateDistortion_def finalAmount_def spec_finalAmount_def baseAmount_def)

theorem updateDistortion_amount_witness:
  "nodes ready_engine \<noteq> None \<and> node_value preGain_gain ready_engine = Some 3
   \<and> node_value distortion_curve (engine_of (updateDistortion ready_engine))
       = Some (makeDistortionCurve (0.5 * (0.2 + 0.125 * 0.8)))
   \<and> finalAmount ''fender'' False 3 = spec_finalAmount ''fender'' False 3"
proof -
  note t = updateDistortion_amount [OF ready_engine_nodes]
  have "node_value distortion_curve (engine_of (updateDistortion ready_engine))
       = Some (makeDistortionCurve (0.5 * (0.2 + 0.125 * 0.8)))"
    unfolding conjunct1 [OF t]
    by (simp add: node_value_def ready_engine_eq init_nodes_def baseAmount_def)
  moreover have "finalAmount ''fender'' False 3 = spec_finalAmount ''fender'' False 3"
    using t by (simp add: ready_engine_eq init_nodes_def)
  ultimately show ?thesis
    by (simp add: ready_engine_nodes node_value_def init_nodes_def)
qed

section \<open>Loading an external impulse response\<close>

text \<open>
  Claim C9. When the decoder rejects the bytes, \<open>loadIR\<close> does not return \<open>true\<close> (it
  returns \<open>false\<close>, or \<open>undefined\<close> when there is no context yet) and the engine, with
  the buffer bound to the cabinet stage, is the one it was called on.
\<close>

theorem loadIR_decode_failure:
  "decodeAudioData arrayBuffer = None \<Longrightarrow>
     loadIR decodeAudioData arrayBuffer s = (s, if ctx s = None then Undefined else Bool False)
     \<and> snd (loadIR decodeAudioData arrayBuffer s) \<noteq> Bool True
     \<and> node_value cab_buffer (fst (loadIR decodeAudioData arrayBuffer s)) = node_value cab_buffer s"
  by (simp add: loadIR_def)

theorem loadIR_decode_failure_witness:
  "reject_all [82, 73, 70, 70] = None
   \<and> loadIR reject_all [82, 73, 70, 70] ready_engine = (ready_engine, Bool False)
   \<and> node_value cab_buffer (fst (loadIR reject_all [82, 73, 70, 70] ready_engine))
       = Some (Some (synth_impulse ''fender'' alternating_source 48000))"
proof -
  have h: "reject_all [82, 73, 70, 70] = None" by (simp add: reject_all_def)
  from loadIR_decode_failure [of reject_all "[82, 73, 70, 70]" ready_engine, OF h] h show ?thesis
    by (simp add: ready_engine_eq node_value_def init_nodes_def)
qed

section \<open>The distortion curve\<close>

text \<open>
  Claim C4. For every amount of at least 0 the table has \<open>n_samples\<close> entries and does not
  decrease from one index to a later one, in the low regime (amount below 1) and in the
  high regime alike.
\<close>

theorem curve_monotone:
  assumes "0 \<le> amount" and "i \<le> j" and "j < n_samples"
  shows "length (makeDistortionCurve amount) = n_samples
     \<and> makeDistortionCurve amount ! i \<le> makeDistortionCurve amount ! j"
proof -
  from assms(2,3) have "i < n_samples" by simp
  with assms show ?thesis
    by (simp add: length_makeDistortionCurve nth_makeDistortionCurve waveshape_mono sample_x_mono)
qed

theorem curve_monotone_witness:
  "(0::real) \<le> 0.15 \<and> \<not> (1::real) \<le> 0.15 \<and> (1::real) \<le> 16 \<and> (100::nat) \<le> 44099 \<and> 44099 < n_samples
   \<and> makeDistortionCurve 0.15 ! 100 \<le> makeDistortionCurve 0.15 ! 44099
   \<and> makeDistortionCurve 16 ! 100 \<le> makeDistortionCurve 16 ! 44099"
proof -
  have n: "(44099::nat) < n_samples" by (simp add: n_samples_def)
  have ij: "(100::nat) \<le> 44099" by simp
  have lo: "(0::real) \<le> 0.15" by simp
  have hi: "(0::real) \<le> 16" by simp
  from curve_monotone [OF lo ij n] curve_monotone [OF hi ij n] n show ?thesis by simp
qed




section \<open>The synthetic cabinet\<close>

text \<open>
  Claim C8. For every model name, \<open>setInternalCab\<close> binds a buffer of two channels that
  are the same list of samples; its length is half the sample rate (the rate times the
  duration 0.5 s, for an even rate such as the 48000 of \<open>init\<close>); sample \<open>i\<close> is the
  model's coloration of the draw \<open>rnd i * 2 - 1\<close>, a number in \<open>[-1, 1)\<close>, scaled by
  \<open>(1 - i / length) ^ 4\<close>. That the draws are uniform is a property of the random source,
  a parameter here.
\<close>

theorem internal_cab_buffer:
  assumes "ctx s = Some c" and "nodes s = Some n"
  shows "\<exists>chan.
     setInternalCab rnd model s = Returns (s\<lparr> nodes := Some (n\<lparr> cab_buffer :=
        Some \<lparr> buffer_rate = sampleRate c, channelData = [chan, chan] \<rparr> \<rparr>) \<rparr>)
   \<and> length chan = sampleRate c div 2
   \<and> (even (sampleRate c) \<longrightarrow> real (length chan) = real (sampleRate c) * 0.5)
   \<and> (\<forall>i < length chan.
         chan ! i =
           (if model = ''fender'' then
              (if i mod 2 = 0 then decayed_noise rnd (real (sampleRate c) * 0.5) i * 0.9
               else decayed_noise rnd (real (sampleRate c) * 0.5) i)
            else if model = ''marshall'' then
              (if i > 2 then (decayed_noise rnd (real (sampleRate c) * 0.5) i
                               + chan ! (i - 1) + chan ! (i - 2)) / 3
               else decayed_noise rnd (real (sampleRate c) * 0.5) i)
            else if model = ''vox'' then decayed_noise rnd (real (sampleRate c) * 0.5) i * 0.8
            else decayed_noise rnd (real (sampleRate c) * 0.5) i)
       \<and> decayed_noise rnd (real (sampleRate c) * 0.5) i
           = (rnd i * 2 - 1) * (1 - real i / (real (sampleRate c) * 0.5)) ^ 4
       \<and> (0 \<le> rnd i \<and> rnd i < 1 \<longrightarrow>
            - 1 \<le> rnd i * 2 - 1 \<and> rnd i * 2 - 1 < 1
          \<and> \<bar>decayed_noise rnd (real (sampleRate c) * 0.5) i\<bar> \<le> 1))"
proof -
  let ?len = "real (sampleRate c) * 0.5"
  let ?chan = "cab_channel model rnd (sampleRate c)"
  have set: "setInternalCab rnd model s = Returns (s\<lparr> nodes := Some (n\<lparr> cab_buffer :=
        Some \<lparr> buffer_rate = sampleRate c, channelData = [?chan, ?chan] \<rparr> \<rparr>) \<rparr>)"
    using assms by (simp add: setInternalCab_def write_node_def synth_impulse_def Let_def)
  have len: "length ?chan = sampleRate c div 2"
    by (simp add: cab_channel_def length_fill_channel)
  have ev: "even (sampleRate c) \<longrightarrow> real (length ?chan) = ?len"
    unfolding len by (auto elim!: evenE)
  have samples: "\<forall>i < length ?chan.
         ?chan ! i =
           (if model = ''fender'' then
              (if i mod 2 = 0 then decayed_noise rnd ?len i * 0.9 else decayed_noise rnd ?len i)
            else if model = ''marshall'' then
              (if i > 2 then (decayed_noise rnd ?len i + ?chan ! (i - 1) + ?chan ! (i - 2)) / 3
               else decayed_noise rnd ?len i)
            else if model = ''vox'' then decayed_noise rnd ?len i * 0.8
            else decayed_noise rnd ?len i)
       \<and> decayed_noise rnd ?len i = (rnd i * 2 - 1) * (1 - real i / ?len) ^ 4
       \<and> (0 \<le> rnd i \<and> rnd i < 1 \<longrightarrow>
            - 1 \<le> rnd i * 2 - 1 \<and> rnd i * 2 - 1 < 1 \<and> \<bar>decayed_noise rnd ?len i\<bar> \<le> 1)"
  proof (intro allI impI)
    fix i assume i: "i < length ?chan"
    then have i2: "i < sampleRate c div 2" by (simp add: len)
    then have il: "real i < ?len" by linarith
    have "?chan ! i = cab_sample model rnd ?len ?chan i"
      unfolding cab_channel_def using i2 by (rule nth_fill_channel)
    then have a: "?chan ! i =
           (if model = ''fender'' then
              (if i mod 2 = 0 then decayed_noise rnd ?len i * 0.9 else decayed_noise rnd ?len i)
            else if model = ''marshall'' then
              (if i > 2 then (decayed_noise rnd ?len i + ?chan ! (i - 1) + ?chan ! (i - 2)) / 3
               else decayed_noise rnd ?len i)
            else if model = ''vox'' then decayed_noise rnd ?len i * 0.8
            else decayed_noise rnd ?len i)"
      by (simp add: cab_sample_def Let_def)
    have b: "decayed_noise rnd ?len i = (rnd i * 2 - 1) * (1 - real i / ?len) ^ 4"
      by (simp add: decayed_noise_def)
    have d: "0 \<le> rnd i \<and> rnd i < 1 \<longrightarrow>
            - 1 \<le> rnd i * 2 - 1 \<and> rnd i * 2 - 1 < 1 \<and> \<bar>decayed_noise rnd ?len i\<bar> \<le> 1"
      using decayed_noise_bounds [OF _ _ il, of rnd] by simp
    from a b d show "?chan ! i =
           (if model = ''fender'' then
              (if i mod 2 = 0 then decayed_noise rnd ?len i * 0.9 else decayed_noise rnd ?len i)
            else if model = ''marshall'' then
              (if i > 2 then (decayed_noise rnd ?len i + ?chan ! (i - 1) + ?chan ! (i - 2)) / 3
               else decayed_noise rnd ?len i)
            else if model = ''vox'' then decayed_noise rnd ?len i * 0.8
            else decayed_noise rnd ?len i)
       \<and> decayed_noise rnd ?len i = (rnd i * 2 - 1) * (1 - real i / ?len) ^ 4
       \<and> (0 \<le> rnd i \<and> rnd i < 1 \<longrightarrow>
            - 1 \<le> rnd i * 2 - 1 \<and> rnd i * 2 - 1 < 1 \<and> \<bar>decayed_noise rnd ?len i\<bar> \<le> 1)"
      by blast
  qed
  from set len ev samples show ?thesis by blast
qed

theorem internal_cab_buffer_witness:
  "\<exists>chan. ctx ready_engine = Some \<lparr> sampleRate = 48000 \<rparr> \<and> nodes ready_engine \<noteq> None
    \<and> even (48000 :: nat) \<and> 0 \<le> alternating_source 1 \<and> alternating_source 1 < 1
    \<and> node_value cab_buffer (engine_of (setInternalCab alternating_source ''vox'' ready_engine))
        = Some (Some \<lparr> buffer_rate = 48000, channelData = [chan, chan] \<rparr>)
    \<and> length chan = 24000
    \<and> chan ! 0 = 0.4
    \<and> chan ! 1 = (1 / 4 * 2 - 1) * (1 - 1 / 24000) ^ 4 * 0.8
    \<and> \<bar>decayed_noise alternating_source 24000 1\<bar> \<le> 1"
proof -
  have c: "ctx ready_engine = Some \<lparr> sampleRate = 48000 \<rparr>" by (simp add: ready_engine_eq)
  note t = internal_cab_buffer [OF c ready_engine_nodes, of alternating_source "''vox''"]
  show ?thesis
    using t c ready_engine_nodes
    apply (elim exE conjE)
    subgoal for chan
      apply (frule spec [of _ 0])
      apply (drule spec [of _ 1])
      apply (rule exI [of _ chan])
      apply (simp add: node_value_def alternating_source_def decayed_noise_def)
      done
    done
qed

end
